theory Spec2Isabelle
  imports Complex_Main "HOL-Library.Word"
begin

unbundle bit_operations_syntax

section \<open>Python values, exceptions and bytes\<close>

text \<open>
  The driver exists in two variants, \<^verbatim>\<open>iam20380.py\<close> and \<^verbatim>\<open>sierralobo_iam20380.py\<close>.
  Definitions taken from the second one carry the prefix \<open>sl_\<close>; the others keep the
  names of \<^verbatim>\<open>iam20380.py\<close> (a leading underscore is dropped, a setter is \<open>_set\<close>).

  Exceptions are values of \<open>error\<close>; a method returns \<open>error + result\<close>. Python integers
  are \<open>int\<close>. A Python float is modelled by the real number it stands for: rounding of
  the floating-point operations is not part of the model.
\<close>

datatype error =
  RuntimeError | ValueError | TypeError | ZeroDivisionError | AttributeError | IndexError
| SyntaxError

datatype pyval =
  PNone | PInt int | PFloat real | PStr string | PTuple "pyval list"

type_synonym byte = "8 word"

text \<open>Python's \<^verbatim>\<open>xs[i]\<close>: a negative index counts from the end, out of range raises.\<close>

definition py_getitem :: "'a list \<Rightarrow> int \<Rightarrow> error + 'a" where
  "py_getitem xs i =
     (if 0 \<le> i \<and> i < int (length xs) then Inr (xs ! nat i)
      else if i < 0 \<and> - int (length xs) \<le> i then Inr (xs ! nat (int (length xs) + i))
      else Inl IndexError)"

text \<open>
  Python's \<^verbatim>\<open>x == v\<close> for an integer \<open>v\<close>: a number is compared by its value; a string, a
  tuple or None is never equal to an integer.
\<close>

fun py_eq_int :: "pyval \<Rightarrow> int \<Rightarrow> bool" where
  "py_eq_int (PInt i) v = (i = v)"
| "py_eq_int (PFloat r) v = (r = real_of_int v)"
| "py_eq_int PNone v = False"
| "py_eq_int (PStr s) v = False"
| "py_eq_int (PTuple vs) v = False"

text \<open>Python's \<^verbatim>\<open>v in xs\<close> for an integer \<open>v\<close>: some element equals \<open>v\<close>.\<close>

fun py_contains :: "pyval list \<Rightarrow> int \<Rightarrow> bool" where
  "py_contains [] v = False"
| "py_contains (x # xs) v = (if py_eq_int x v then True else py_contains xs v)"

text \<open>Python's \<^verbatim>\<open>xs.index(v)\<close>: the first position holding \<open>v\<close>, ValueError when absent.\<close>

fun py_index :: "pyval list \<Rightarrow> int \<Rightarrow> error + int" where
  "py_index [] v = Inl ValueError"
| "py_index (x # xs) v =
     (if py_eq_int x v then Inr 0
      else case py_index xs v of Inl e \<Rightarrow> Inl e | Inr i \<Rightarrow> Inr (i + 1))"

text \<open>
  A list display \<^verbatim>\<open>[ ... ]\<close> as a source file writes it: the items in order, each with
  what follows it, a comma or nothing. Python accepts the display when every item but the
  last is followed by a comma (a comma after the last one is optional); two string literals
  with nothing between them are one string; any other item followed directly by another
  item is a syntax error, and a file holding it is not compiled.
\<close>

datatype after = Comma | NoComma

fun list_display :: "(pyval \<times> after) list \<Rightarrow> error + pyval list" where
  "list_display [] = Inr []"
| "list_display [(v, c)] = Inr [v]"
| "list_display ((PStr s, NoComma) # (PStr t, c) # rest) = list_display ((PStr (s @ t), c) # rest)"
| "list_display ((v, NoComma) # rest) = Inl SyntaxError"
| "list_display ((v, Comma) # rest) =
     (case list_display rest of Inl e \<Rightarrow> Inl e | Inr vs \<Rightarrow> Inr (v # vs))"

text \<open>
  Python's true division \<^verbatim>\<open>x / d\<close> of an integer \<open>x\<close>: a float for a number \<open>d\<close>,
  ZeroDivisionError for a zero, TypeError for a string, a tuple or None.
\<close>

fun truediv :: "int \<Rightarrow> pyval \<Rightarrow> error + real" where
  "truediv x (PInt d) = (if d = 0 then Inl ZeroDivisionError else Inr (real_of_int x / real_of_int d))"
| "truediv x (PFloat d) = (if d = 0 then Inl ZeroDivisionError else Inr (real_of_int x / d))"
| "truediv x PNone = Inl TypeError"
| "truediv x (PStr s) = Inl TypeError"
| "truediv x (PTuple vs) = Inl TypeError"

text \<open>
  The format specification \<^verbatim>\<open>#x\<close> inside an f-string: an integer is rendered in
  hexadecimal; a float or a string raises ValueError (unknown format code); a tuple or None
  has only \<^verbatim>\<open>object.__format__\<close>, which raises TypeError for a non-empty specification.
  The rendered text is not modelled.
\<close>

fun format_hex :: "pyval \<Rightarrow> error + unit" where
  "format_hex (PInt n) = Inr ()"
| "format_hex (PFloat r) = Inl ValueError"
| "format_hex (PStr s) = Inl ValueError"
| "format_hex PNone = Inl TypeError"
| "format_hex (PTuple vs) = Inl TypeError"

section \<open>The bus and the register descriptors\<close>

text \<open>
  Modelled from the spec: the bus transport (\<^verbatim>\<open>adafruit_bus_device.i2c_device.I2CDevice\<close>)
  and the register descriptors (\<^verbatim>\<open>adafruit_register\<close>: UnaryStruct, RWBit, RWBits) are
  imported by both source files and are not part of them. Spec sections 4.1, 6 and 9: a read
  writes one register address byte and then reads N bytes starting at that address with
  auto-increment; a write sends the register address followed by the data; a bit-field
  access is read-byte, mask and set, write-byte on the containing register.

  The device is a simulated one (spec section 8): a register file that returns what was
  last written, every transaction succeeding. \<open>bus_log\<close> records the transactions in
  order.
\<close>

datatype txn =
  TxWrite "byte list"
| TxWriteRead "byte list" nat

record i2c =
  regs :: "nat \<Rightarrow> byte"
  bus_log :: "txn list"

text \<open>\<^verbatim>\<open>i2c.write(buf)\<close>: \<open>buf\<close> is the register address followed by the data bytes.\<close>

definition i2c_write :: "i2c \<Rightarrow> byte list \<Rightarrow> i2c" where
  "i2c_write bus buf =
     (case buf of
        [] \<Rightarrow> bus\<lparr>bus_log := bus_log bus @ [TxWrite buf]\<rparr>
      | p # dat \<Rightarrow>
          bus\<lparr>regs := (\<lambda>a. if unat p \<le> a \<and> a < unat p + length dat
                             then dat ! (a - unat p) else regs bus a),
              bus_log := bus_log bus @ [TxWrite buf]\<rparr>)"

text \<open>
  \<^verbatim>\<open>i2c.write_then_readinto(buf, buf, out_end=oe, in_start=is)\<close> with the same buffer for
  both directions, as every call in the source has it: \<open>buf[0:oe]\<close> is written (its first
  byte is the register address), then \<open>len(buf) - is\<close> bytes are read into \<open>buf[is:]\<close>,
  since \<^verbatim>\<open>in_end\<close> defaults to the length of the buffer.
\<close>

definition write_then_readinto :: "i2c \<Rightarrow> byte list \<Rightarrow> nat \<Rightarrow> nat \<Rightarrow> i2c \<times> byte list" where
  "write_then_readinto bus buf out_end in_start =
     (case buf of
        [] \<Rightarrow> (bus\<lparr>bus_log := bus_log bus @ [TxWriteRead [] 0]\<rparr>, buf)
      | p # rest \<Rightarrow>
          (let n = length buf - in_start
           in (bus\<lparr>bus_log := bus_log bus @ [TxWriteRead (take out_end buf) n]\<rparr>,
               take in_start buf @ map (\<lambda>i. regs bus (unat p + i)) [0..<n])))"

text \<open>UnaryStruct and ROUnaryStruct with format \<^verbatim>\<open><B\<close>: one whole byte.\<close>

definition unary_get :: "nat \<Rightarrow> i2c \<Rightarrow> i2c \<times> byte" where
  "unary_get addr bus =
     (let (bus', buf) = write_then_readinto bus [of_nat addr, 0] 1 1 in (bus', buf ! 1))"

definition unary_set :: "nat \<Rightarrow> i2c \<Rightarrow> byte \<Rightarrow> i2c" where
  "unary_set addr bus v = i2c_write bus [of_nat addr, v]"

text \<open>RWBit: one bit of a one-byte register, written by read-modify-write.\<close>

definition rwbit_get :: "nat \<Rightarrow> nat \<Rightarrow> i2c \<Rightarrow> i2c \<times> bool" where
  "rwbit_get addr b bus =
     (let (bus', buf) = write_then_readinto bus [of_nat addr, 0] 1 1
      in (bus', (buf ! 1) AND push_bit b 1 \<noteq> 0))"

definition rwbit_set :: "nat \<Rightarrow> nat \<Rightarrow> i2c \<Rightarrow> bool \<Rightarrow> i2c" where
  "rwbit_set addr b bus v =
     (let (bus', buf) = write_then_readinto bus [of_nat addr, 0] 1 1;
          r = buf ! 1;
          r' = (if v then r OR push_bit b 1 else r AND NOT (push_bit b 1))
      in i2c_write bus' [of_nat addr, r'])"

text \<open>
  RWBits: a field of \<open>num_bits\<close> bits starting at \<open>lowest_bit\<close>. The setter clears the
  field in the byte it read, ORs in the value shifted to the field's position, keeps the low
  eight bits and writes the byte back.
\<close>

definition bit_mask :: "nat \<Rightarrow> nat \<Rightarrow> byte" where
  "bit_mask num_bits lowest_bit = push_bit lowest_bit (mask num_bits)"

definition rwbits_get :: "nat \<Rightarrow> nat \<Rightarrow> nat \<Rightarrow> i2c \<Rightarrow> i2c \<times> int" where
  "rwbits_get num_bits addr lowest_bit bus =
     (let (bus', buf) = write_then_readinto bus [of_nat addr, 0] 1 1
      in (bus', uint (drop_bit lowest_bit ((buf ! 1) AND bit_mask num_bits lowest_bit))))"

definition rwbits_set :: "nat \<Rightarrow> nat \<Rightarrow> nat \<Rightarrow> i2c \<Rightarrow> int \<Rightarrow> i2c" where
  "rwbits_set num_bits addr lowest_bit bus v =
     (let (bus', buf) = write_then_readinto bus [of_nat addr, 0] 1 1;
          r = buf ! 1;
          r' = (r AND NOT (bit_mask num_bits lowest_bit)) OR push_bit lowest_bit (word_of_int v)
      in i2c_write bus' [of_nat addr, r'])"

section \<open>Register map\<close>

definition IAM20380_WHO_AM_I :: int where "IAM20380_WHO_AM_I = 0xB5"

definition SMPLRT_DIV_REG :: nat where "SMPLRT_DIV_REG = 0x19"
definition CONFIG_REG :: nat where "CONFIG_REG = 0x1A"
definition GYRO_CONFIG_REG :: nat where "GYRO_CONFIG_REG = 0x1B"
definition LP_MODE_CFG_REG :: nat where "LP_MODE_CFG_REG = 0x1E"
definition TEMP_OUT_H_REG :: nat where "TEMP_OUT_H_REG = 0x41"
definition GYRO_XOUT_H_REG :: nat where "GYRO_XOUT_H_REG = 0x43"
definition PWR_MGMT_1_REG :: nat where "PWR_MGMT_1_REG = 0x6B"
definition WHO_AM_I_REG :: nat where "WHO_AM_I_REG = 0x75"

lemmas reg_defs =
  SMPLRT_DIV_REG_def CONFIG_REG_def GYRO_CONFIG_REG_def LP_MODE_CFG_REG_def
  TEMP_OUT_H_REG_def GYRO_XOUT_H_REG_def PWR_MGMT_1_REG_def WHO_AM_I_REG_def

section \<open>iam20380.py\<close>

text \<open>
  The three tables, as the file writes them. Each list display opens with a triple-quoted
  string describing the table, and no comma stands between that string and the first
  number; the numbers are separated by commas and none follows the last.
\<close>

definition sens_doc :: string where
  "sens_doc = ''The sensitivity of the sensor per configured value, LSB/dps'' @ [CHR 0x0A]
     @ ''    determined by FS_SEL value'' @ [CHR 0x0A] @ ''    ''"

definition fs_doc :: string where
  "fs_doc = ''The offset of the sensor per configured value, dps'' @ [CHR 0x0A]
     @ ''    determined by FS_SEL value'' @ [CHR 0x0A] @ ''    ''"

definition avgs_doc :: string where
  "avgs_doc = ''The number of averages of the sensor per configured value'' @ [CHR 0x0A]
     @ ''    determined by G_AVGCFG value'' @ [CHR 0x0A] @ ''    ''"

definition IAM20380_sens_display :: "(pyval \<times> after) list" where
  "IAM20380_sens_display =
     [(PStr sens_doc, NoComma), (PInt 131, Comma), (PFloat 65.5, Comma), (PFloat 32.8, Comma),
      (PFloat 16.4, NoComma)]"

definition IAM20380_fs_display :: "(pyval \<times> after) list" where
  "IAM20380_fs_display =
     [(PStr fs_doc, NoComma), (PInt 250, Comma), (PInt 500, Comma), (PInt 1000, Comma),
      (PInt 2000, NoComma)]"

definition IAM20380_avgs_display :: "(pyval \<times> after) list" where
  "IAM20380_avgs_display =
     [(PStr avgs_doc, NoComma), (PInt 1, Comma), (PInt 2, Comma), (PInt 4, Comma),
      (PInt 8, Comma), (PInt 16, Comma), (PInt 32, Comma), (PInt 64, Comma),
      (PInt 128, NoComma)]"

text \<open>
  The methods read the tables as module globals. Since the displays above do not evaluate
  as they stand, the globals are a parameter \<open>g\<close> of every method that reads a table, and a
  property of such a method is stated for every \<open>g\<close> or for a named one.
\<close>

record globals =
  IAM20380_sens :: "pyval list"
  IAM20380_fs :: "pyval list"
  IAM20380_avgs :: "pyval list"

text \<open>
  Two single edits turn each display into one Python accepts. \<open>globals_comma\<close> holds the
  tables with a comma put after the string, every token of the file kept: the string is
  then element 0 and every number sits one place later. \<open>globals_numbers\<close> holds the
  tables with the string left out, read as the comment it is worded as: the number for
  register code \<open>k\<close> is then at index \<open>k\<close>. Neither is the file as it stands.
\<close>

definition comma_added :: "(pyval \<times> after) list \<Rightarrow> pyval list" where
  "comma_added d = map fst d"

definition string_dropped :: "(pyval \<times> after) list \<Rightarrow> pyval list" where
  "string_dropped d = filter (\<lambda>v. case v of PStr s \<Rightarrow> False | _ \<Rightarrow> True) (map fst d)"

definition globals_comma :: globals where
  "globals_comma =
     \<lparr>IAM20380_sens = comma_added IAM20380_sens_display,
      IAM20380_fs = comma_added IAM20380_fs_display,
      IAM20380_avgs = comma_added IAM20380_avgs_display\<rparr>"

definition globals_numbers :: globals where
  "globals_numbers =
     \<lparr>IAM20380_sens = string_dropped IAM20380_sens_display,
      IAM20380_fs = string_dropped IAM20380_fs_display,
      IAM20380_avgs = string_dropped IAM20380_avgs_display\<rparr>"

text \<open>The instance: the bus device and the six-byte buffer made by \<^verbatim>\<open>__init__\<close>.\<close>

record handle =
  i2c_device :: i2c
  buffer :: "byte list"

text \<open>The class-level descriptors.\<close>

definition chip_id :: "i2c \<Rightarrow> i2c \<times> byte" where
  "chip_id = unary_get WHO_AM_I_REG"

definition reset_bit_set :: "i2c \<Rightarrow> bool \<Rightarrow> i2c" where
  "reset_bit_set = rwbit_set PWR_MGMT_1_REG 7"

definition fs_sel :: "i2c \<Rightarrow> i2c \<times> int" where
  "fs_sel = rwbits_get 2 GYRO_CONFIG_REG 3"

definition fs_sel_set :: "i2c \<Rightarrow> int \<Rightarrow> i2c" where
  "fs_sel_set = rwbits_set 2 GYRO_CONFIG_REG 3"

definition pwr_mgmt_1_set :: "i2c \<Rightarrow> byte \<Rightarrow> i2c" where
  "pwr_mgmt_1_set = unary_set PWR_MGMT_1_REG"

definition gavg_cfg :: "i2c \<Rightarrow> i2c \<times> int" where
  "gavg_cfg = rwbits_get 3 LP_MODE_CFG_REG 4"

definition gavg_cfg_set :: "i2c \<Rightarrow> int \<Rightarrow> i2c" where
  "gavg_cfg_set = rwbits_set 3 LP_MODE_CFG_REG 4"

definition fchoice_b_set :: "i2c \<Rightarrow> int \<Rightarrow> i2c" where
  "fchoice_b_set = rwbits_set 2 GYRO_CONFIG_REG 0"

definition dlpf_cfg :: "i2c \<Rightarrow> i2c \<times> int" where
  "dlpf_cfg = rwbits_get 3 CONFIG_REG 0"

definition dlpf_cfg_set :: "i2c \<Rightarrow> int \<Rightarrow> i2c" where
  "dlpf_cfg_set = rwbits_set 3 CONFIG_REG 0"

definition smplrt_div_reg :: "i2c \<Rightarrow> i2c \<times> byte" where
  "smplrt_div_reg = unary_get SMPLRT_DIV_REG"

definition smplrt_div_reg_set :: "i2c \<Rightarrow> byte \<Rightarrow> i2c" where
  "smplrt_div_reg_set = unary_set SMPLRT_DIV_REG"

text \<open>The property \<^verbatim>\<open>fs\<close> and its setter.\<close>

definition fs :: "globals \<Rightarrow> handle \<Rightarrow> error + handle \<times> pyval" where
  "fs g h =
     (let (bus, temp) = fs_sel (i2c_device h)
      in case py_getitem (IAM20380_fs g) temp of
           Inl e \<Rightarrow> Inl e
         | Inr v \<Rightarrow> Inr (h\<lparr>i2c_device := bus\<rparr>, v))"

definition fs_set :: "globals \<Rightarrow> handle \<Rightarrow> int \<Rightarrow> error + handle" where
  "fs_set g h v =
     (if \<not> py_contains (IAM20380_fs g) v then Inl ValueError
      else case py_index (IAM20380_fs g) v of
             Inl e \<Rightarrow> Inl e
           | Inr i \<Rightarrow> Inr (h\<lparr>i2c_device := fs_sel_set (i2c_device h) i\<rparr>))"

text \<open>The property \<^verbatim>\<open>sens\<close>.\<close>

definition sens :: "globals \<Rightarrow> handle \<Rightarrow> error + handle \<times> pyval" where
  "sens g h =
     (let (bus, temp) = fs_sel (i2c_device h)
      in case py_getitem (IAM20380_sens g) temp of
           Inl e \<Rightarrow> Inl e
         | Inr v \<Rightarrow> Inr (h\<lparr>i2c_device := bus\<rparr>, v))"

text \<open>
  The setter of \<^verbatim>\<open>dlpf\<close>. Its test is \<^verbatim>\<open>value <= 1 | 6 <= value\<close>: the bitwise OR binds
  tighter than the comparisons, which then chain: \<open>value \<le> (1 OR 6) \<and> (1 OR 6) \<le> value\<close>.
\<close>

definition dlpf_set :: "handle \<Rightarrow> int \<Rightarrow> error + handle" where
  "dlpf_set h v =
     (if v \<le> (1 OR 6) \<and> (1 OR 6) \<le> v then Inl ValueError
      else Inr (h\<lparr>i2c_device := dlpf_cfg_set (i2c_device h) v\<rparr>))"

text \<open>The property \<^verbatim>\<open>smplrt_div\<close> and its setter, which has no branch that writes.\<close>

definition smplrt_div :: "handle \<Rightarrow> handle \<times> int" where
  "smplrt_div h = (let (bus, d) = smplrt_div_reg (i2c_device h) in (h\<lparr>i2c_device := bus\<rparr>, uint d))"

definition smplrt_div_set :: "handle \<Rightarrow> int \<Rightarrow> error + handle" where
  "smplrt_div_set h v = (if 0 \<le> v \<and> v \<le> 255 then Inl ValueError else Inr h)"

text \<open>The property \<^verbatim>\<open>avgs\<close> and its setter.\<close>

definition avgs :: "globals \<Rightarrow> handle \<Rightarrow> error + handle \<times> pyval" where
  "avgs g h =
     (let (bus, temp) = gavg_cfg (i2c_device h)
      in case py_getitem (IAM20380_avgs g) temp of
           Inl e \<Rightarrow> Inl e
         | Inr v \<Rightarrow> Inr (h\<lparr>i2c_device := bus\<rparr>, v))"

definition avgs_set :: "globals \<Rightarrow> handle \<Rightarrow> int \<Rightarrow> error + handle" where
  "avgs_set g h v =
     (if \<not> py_contains (IAM20380_avgs g) v then Inl ValueError
      else case py_index (IAM20380_avgs g) v of
             Inl e \<Rightarrow> Inl e
           | Inr i \<Rightarrow> Inr (h\<lparr>i2c_device := gavg_cfg_set (i2c_device h) i\<rparr>))"

text \<open>The property \<^verbatim>\<open>odr\<close>: an unguarded true division by the divider register.\<close>

definition odr :: "handle \<Rightarrow> error + handle \<times> real" where
  "odr h =
     (let (bus, d) = smplrt_div_reg (i2c_device h)
      in case truediv 1000 (PInt (uint d)) of
           Inl e \<Rightarrow> Inl e
         | Inr q \<Rightarrow> Inr (h\<lparr>i2c_device := bus\<rparr>, q))"

text \<open>
  \<^verbatim>\<open>reset\<close>: the assignments in the order of the source, stopping at the first exception.
  The sleep of 20 ms has no effect on the state.
\<close>

definition reset :: "globals \<Rightarrow> handle \<Rightarrow> error + handle" where
  "reset g h0 =
     (let h1 = h0\<lparr>i2c_device := reset_bit_set (i2c_device h0) True\<rparr>;
          h2 = h1\<lparr>i2c_device := pwr_mgmt_1_set (i2c_device h1) 0x01\<rparr>;
          h3 = h2\<lparr>i2c_device := fchoice_b_set (i2c_device h2) 0x00\<rparr>
      in case fs_set g h3 250 of Inl e \<Rightarrow> Inl e | Inr h4 \<Rightarrow>
         case dlpf_set h4 6 of Inl e \<Rightarrow> Inl e | Inr h5 \<Rightarrow>
         case smplrt_div_set h5 255 of Inl e \<Rightarrow> Inl e | Inr h6 \<Rightarrow>
         avgs_set g h6 128)"

text \<open>
  \<^verbatim>\<open>__init__\<close>: the bus device is made without a probe, the chip identity is compared with
  the one accepted byte, the buffer is allocated and \<^verbatim>\<open>reset\<close> runs. An exception leaves
  no instance.
\<close>

definition init :: "globals \<Rightarrow> i2c \<Rightarrow> error + handle" where
  "init g bus =
     (let (bus1, cid) = chip_id bus
      in if uint cid \<noteq> IAM20380_WHO_AM_I then Inl RuntimeError
         else reset g \<lparr>i2c_device = bus1, buffer = replicate 6 0\<rparr>)"

text \<open>
  The property \<^verbatim>\<open>temperature\<close>. The shared buffer is both the output and the input of
  the one bus call, so the read fills the whole buffer; the first two bytes are used.
  A buffer too short for \<^verbatim>\<open>self._buffer[1]\<close> raises IndexError.
\<close>

definition temperature :: "handle \<Rightarrow> error + handle \<times> real" where
  "temperature h =
     (if length (buffer h) < 2 then Inl IndexError
      else let (bus, buf) = write_then_readinto (i2c_device h)
                              ((buffer h)[0 := of_nat TEMP_OUT_H_REG]) 1 0;
               temp = push_bit 8 (uint (buf ! 0)) OR uint (buf ! 1)
           in Inr (h\<lparr>i2c_device := bus, buffer := buf\<rparr>, real_of_int temp / 326.8 + 25))"

text \<open>
  The property \<^verbatim>\<open>rotation\<close>. \<open>rotation_body\<close> gives the values of the local variables
  \<open>x\<close>, \<open>y\<close>, \<open>z\<close> when the body ends: \<^verbatim>\<open>1 << 15\<close> is subtracted from each raw value and
  each is divided by \<^verbatim>\<open>self.sens\<close>, read from the device three times. The body has no
  \<^verbatim>\<open>return\<close>, so the property evaluates to None.
\<close>

definition rotation_body :: "globals \<Rightarrow> handle \<Rightarrow> error + handle \<times> real \<times> real \<times> real" where
  "rotation_body g h =
     (if length (buffer h) < 6 then Inl IndexError
      else let (bus, buf) = write_then_readinto (i2c_device h)
                              ((buffer h)[0 := of_nat GYRO_XOUT_H_REG]) 1 0;
               h0 = h\<lparr>i2c_device := bus, buffer := buf\<rparr>;
               x = (push_bit 8 (uint (buf ! 0)) OR uint (buf ! 1)) - push_bit 15 1;
               y = (push_bit 8 (uint (buf ! 2)) OR uint (buf ! 3)) - push_bit 15 1;
               z = (push_bit 8 (uint (buf ! 4)) OR uint (buf ! 5)) - push_bit 15 1
           in case sens g h0 of Inl e \<Rightarrow> Inl e | Inr (h1, s1) \<Rightarrow>
              case truediv x s1 of Inl e \<Rightarrow> Inl e | Inr xf \<Rightarrow>
              case sens g h1 of Inl e \<Rightarrow> Inl e | Inr (h2, s2) \<Rightarrow>
              case truediv y s2 of Inl e \<Rightarrow> Inl e | Inr yf \<Rightarrow>
              case sens g h2 of Inl e \<Rightarrow> Inl e | Inr (h3, s3) \<Rightarrow>
              case truediv z s3 of Inl e \<Rightarrow> Inl e | Inr zf \<Rightarrow>
              Inr (h3, xf, yf, zf))"

definition rotation :: "globals \<Rightarrow> handle \<Rightarrow> error + handle \<times> pyval" where
  "rotation g h =
     (case rotation_body g h of Inl e \<Rightarrow> Inl e | Inr (h', x, y, z) \<Rightarrow> Inr (h', PNone))"

section \<open>sierralobo\_iam20380.py\<close>

definition WHO_AM_I :: pyval where
  "WHO_AM_I = PTuple [PInt 0xB5, PInt 0xFD]"

definition IAM20380_TEMP_OFFS :: int where "IAM20380_TEMP_OFFS = 0x0"

definition IAM20380_SENS_250DPS :: pyval where "IAM20380_SENS_250DPS = PInt 313"
definition IAM20380_SENS_500DPS :: pyval where "IAM20380_SENS_500DPS = PFloat 65.5"
definition IAM20380_SENS_1000DPS :: pyval where "IAM20380_SENS_1000DPS = PFloat 32.8"
definition IAM20380_SENS_2000DPS :: pyval where "IAM20380_SENS_2000DPS = PFloat 16.4"

definition IAM20380_RANGE_250DPS :: int where "IAM20380_RANGE_250DPS = 0x0"
definition IAM20380_RANGE_500DPS :: int where "IAM20380_RANGE_500DPS = 0x1"
definition IAM20380_RANGE_1000DPS :: int where "IAM20380_RANGE_1000DPS = 0x2"
definition IAM20380_RANGE_2000DPS :: int where "IAM20380_RANGE_2000DPS = 0x3"

lemmas sl_const_defs =
  IAM20380_TEMP_OFFS_def IAM20380_SENS_250DPS_def IAM20380_SENS_500DPS_def
  IAM20380_SENS_1000DPS_def IAM20380_SENS_2000DPS_def IAM20380_RANGE_250DPS_def
  IAM20380_RANGE_500DPS_def IAM20380_RANGE_1000DPS_def IAM20380_RANGE_2000DPS_def

text \<open>
  The instance attributes. \<^verbatim>\<open>_range\<close> is assigned by \<^verbatim>\<open>reset\<close>; \<^verbatim>\<open>_buffer\<close> is read by
  \<^verbatim>\<open>temperature\<close> and \<^verbatim>\<open>raw\<close> and assigned nowhere in the file. An attribute that has not
  been assigned is \<open>None\<close>, and reading it raises AttributeError.
\<close>

record sl_handle =
  sl_i2c_device :: i2c
  sl_range :: "int option"
  sl_buffer :: "byte list option"

definition sl_gyro_cycle_set :: "i2c \<Rightarrow> bool \<Rightarrow> i2c" where
  "sl_gyro_cycle_set = rwbit_set LP_MODE_CFG_REG 7"

definition sl_gyro_cycle :: "i2c \<Rightarrow> i2c \<times> bool" where
  "sl_gyro_cycle = rwbit_get LP_MODE_CFG_REG 7"

definition sl_reset :: "sl_handle \<Rightarrow> sl_handle" where
  "sl_reset h0 =
     (let h1 = h0\<lparr>sl_i2c_device := reset_bit_set (sl_i2c_device h0) True\<rparr>;
          h2 = h1\<lparr>sl_range := Some IAM20380_RANGE_250DPS\<rparr>;
          h3 = h2\<lparr>sl_i2c_device := smplrt_div_reg_set (sl_i2c_device h2) 255\<rparr>;
          h4 = h3\<lparr>sl_i2c_device := fchoice_b_set (sl_i2c_device h3) 0\<rparr>;
          h5 = h4\<lparr>sl_i2c_device := gavg_cfg_set (sl_i2c_device h4) 3\<rparr>
      in h5\<lparr>sl_i2c_device := sl_gyro_cycle_set (sl_i2c_device h5) True\<rparr>)"

text \<open>
  The message of the exception in \<^verbatim>\<open>__init__\<close>, an f-string with three fields of format
  \<^verbatim>\<open>#x\<close>, evaluated left to right before the exception object is made.
\<close>

definition bad_chip_id_message :: "int \<Rightarrow> pyval \<Rightarrow> pyval \<Rightarrow> error + unit" where
  "bad_chip_id_message addr cid who =
     (case format_hex (PInt addr) of Inl e \<Rightarrow> Inl e | Inr _ \<Rightarrow>
      case format_hex cid of Inl e \<Rightarrow> Inl e | Inr _ \<Rightarrow>
      format_hex who)"

text \<open>
  \<^verbatim>\<open>__init__\<close>: the bus device is made with the default probe (an empty write), \<^verbatim>\<open>reset\<close>
  runs, then the chip identity, an integer, is compared by \<^verbatim>\<open>!=\<close> with the tuple
  \<^verbatim>\<open>_WHO_AM_I\<close>. In the branch that raises, the chip identity is read once more for the
  message.
\<close>

definition sl_init :: "i2c \<Rightarrow> int \<Rightarrow> error + sl_handle" where
  "sl_init bus addr =
     (let h0 = \<lparr>sl_i2c_device = i2c_write bus [], sl_range = None, sl_buffer = None\<rparr>;
          h1 = sl_reset h0;
          (bus1, cid) = chip_id (sl_i2c_device h1)
      in if PInt (uint cid) \<noteq> WHO_AM_I
         then (let (bus2, cid2) = chip_id bus1
               in case bad_chip_id_message addr (PInt (uint cid2)) WHO_AM_I of
                    Inl e \<Rightarrow> Inl e
                  | Inr _ \<Rightarrow> Inl RuntimeError)
         else Inr (h1\<lparr>sl_i2c_device := bus1\<rparr>))"

text \<open>The property \<^verbatim>\<open>temperature\<close>.\<close>

definition sl_temperature :: "sl_handle \<Rightarrow> error + sl_handle \<times> real" where
  "sl_temperature h =
     (case sl_buffer h of
        None \<Rightarrow> Inl AttributeError
      | Some b \<Rightarrow>
          if length b < 2 then Inl IndexError
          else let (bus, buf) = write_then_readinto (sl_i2c_device h)
                                  (b[0 := of_nat TEMP_OUT_H_REG]) 1 0;
                   temp = (push_bit 8 (uint (buf ! 0)) OR uint (buf ! 1)) - IAM20380_TEMP_OFFS
               in Inr (h\<lparr>sl_i2c_device := bus, sl_buffer := Some buf\<rparr>,
                       real_of_int temp / 326.8 + 25))"

text \<open>The property \<^verbatim>\<open>raw\<close>: one burst read, three unsigned 16-bit values.\<close>

definition sl_raw :: "sl_handle \<Rightarrow> error + sl_handle \<times> int \<times> int \<times> int" where
  "sl_raw h =
     (case sl_buffer h of
        None \<Rightarrow> Inl AttributeError
      | Some b \<Rightarrow>
          if length b < 6 then Inl IndexError
          else let (bus, buf) = write_then_readinto (sl_i2c_device h)
                                  (b[0 := of_nat GYRO_XOUT_H_REG]) 1 0;
                   x = push_bit 8 (uint (buf ! 0)) OR uint (buf ! 1);
                   y = push_bit 8 (uint (buf ! 2)) OR uint (buf ! 3);
                   z = push_bit 8 (uint (buf ! 4)) OR uint (buf ! 5)
               in Inr (h\<lparr>sl_i2c_device := bus, sl_buffer := Some buf\<rparr>, x, y, z))"

text \<open>The property \<^verbatim>\<open>sensitivity\<close>: the chain falls through to None.\<close>

definition sl_sensitivity :: "sl_handle \<Rightarrow> error + pyval" where
  "sl_sensitivity h =
     (case sl_range h of
        None \<Rightarrow> Inl AttributeError
      | Some r \<Rightarrow>
          Inr (if r = IAM20380_RANGE_250DPS then IAM20380_SENS_250DPS
               else if r = IAM20380_RANGE_500DPS then IAM20380_SENS_500DPS
               else if r = IAM20380_RANGE_1000DPS then IAM20380_SENS_1000DPS
               else if r = IAM20380_RANGE_2000DPS then IAM20380_SENS_2000DPS
               else PNone))"

text \<open>
  The sign correction that \<^verbatim>\<open>rotation\<close> writes out for each of \<open>x\<close>, \<open>y\<close>, \<open>z\<close>
  (``signed 16 to python int''): \<^verbatim>\<open>if (x & 0x8000) == 0x8000: x -= 0xFFFF\<close>.
\<close>

definition sl_signed16 :: "int \<Rightarrow> int" where
  "sl_signed16 x = (if x AND 0x8000 = 0x8000 then x - 0xFFFF else x)"

definition sl_rotation :: "sl_handle \<Rightarrow> error + sl_handle \<times> real \<times> real \<times> real" where
  "sl_rotation h =
     (case sl_raw h of Inl e \<Rightarrow> Inl e | Inr (h1, x0, y0, z0) \<Rightarrow>
      let x = sl_signed16 x0; y = sl_signed16 y0; z = sl_signed16 z0
      in case sl_sensitivity h1 of Inl e \<Rightarrow> Inl e | Inr s \<Rightarrow>
         case truediv x s of Inl e \<Rightarrow> Inl e | Inr xf \<Rightarrow>
         case truediv y s of Inl e \<Rightarrow> Inl e | Inr yf \<Rightarrow>
         case truediv z s of Inl e \<Rightarrow> Inl e | Inr zf \<Rightarrow>
         Inr (h1, xf, yf, zf))"

section \<open>Observations and simulated devices\<close>

text \<open>What a call returned, without the state it left.\<close>

definition value_of :: "error + 's \<times> 'a \<Rightarrow> error + 'a" where
  "value_of r = (case r of Inl e \<Rightarrow> Inl e | Inr (s, v) \<Rightarrow> Inr v)"

text \<open>One call after another: the second runs on the state the first one left.\<close>

definition and_then :: "error + 's \<Rightarrow> ('s \<Rightarrow> error + 'a) \<Rightarrow> error + 'a" where
  "and_then r f = (case r of Inl e \<Rightarrow> Inl e | Inr s \<Rightarrow> f s)"

text \<open>The transactions the bus of a handle has seen, after a call that returned.\<close>

definition transactions :: "error + handle \<times> 'a \<Rightarrow> txn list" where
  "transactions r = (case r of Inl e \<Rightarrow> [] | Inr (h, v) \<Rightarrow> bus_log (i2c_device h))"

text \<open>The field of \<open>num_bits\<close> bits at \<open>lowest_bit\<close> of a register of the device.\<close>

definition field :: "i2c \<Rightarrow> nat \<Rightarrow> nat \<Rightarrow> nat \<Rightarrow> int" where
  "field bus addr num_bits lowest_bit =
     uint (drop_bit lowest_bit (regs bus addr AND bit_mask num_bits lowest_bit))"

text \<open>A simulated device: every register zero but the chip identity.\<close>

definition sim_bus :: "byte \<Rightarrow> i2c" where
  "sim_bus cid = \<lparr>regs = (\<lambda>a. if a = 0x75 then cid else 0), bus_log = []\<rparr>"

text \<open>
  A simulated device whose registers from \<open>start\<close> on hold the bytes \<open>bs\<close>, every other
  register being zero.
\<close>

definition sim_burst :: "nat \<Rightarrow> byte list \<Rightarrow> i2c" where
  "sim_burst start bs =
     \<lparr>regs = (\<lambda>a. if start \<le> a \<and> a < start + length bs then bs ! (a - start) else 0),
      bus_log = []\<rparr>"

text \<open>
  Six bytes of a gyro burst, the raw values 100, 0x8000 and 0x7FFF, and two bytes of a
  temperature reading, the raw value 0x1234.
\<close>

definition gyro_burst :: "byte list" where
  "gyro_burst = [0x00, 0x64, 0x80, 0x00, 0x7F, 0xFF]"

definition temp_burst :: "byte list" where
  "temp_burst = [0x12, 0x34]"

text \<open>An instance of \<^verbatim>\<open>iam20380.py\<close> as \<^verbatim>\<open>__init__\<close> sets it up before \<^verbatim>\<open>reset\<close>.\<close>

definition new_handle :: "i2c \<Rightarrow> handle" where
  "new_handle bus = \<lparr>i2c_device = bus, buffer = replicate 6 0\<rparr>"

text \<open>
  Instances of \<^verbatim>\<open>sierralobo_iam20380.py\<close> after \<^verbatim>\<open>reset\<close>: as the class leaves them,
  without \<^verbatim>\<open>_buffer\<close>, and with a six-byte \<^verbatim>\<open>_buffer\<close> supplied from outside.
\<close>

definition sl_new_handle :: "i2c \<Rightarrow> sl_handle" where
  "sl_new_handle bus =
     \<lparr>sl_i2c_device = bus, sl_range = Some IAM20380_RANGE_250DPS, sl_buffer = None\<rparr>"

definition sl_buffered_handle :: "i2c \<Rightarrow> sl_handle" where
  "sl_buffered_handle bus = (sl_new_handle bus)\<lparr>sl_buffer := Some (replicate 6 0)\<rparr>"

section \<open>Properties of the descriptors\<close>

lemma regs_rwbits_set:
  "regs (rwbits_set n addr lo bus v) a =
     (if a = unat (of_nat addr :: byte)
      then (regs bus a AND NOT (bit_mask n lo)) OR push_bit lo (word_of_int v)
      else regs bus a)"
  by (auto simp add: rwbits_set_def write_then_readinto_def i2c_write_def Let_def)

lemma log_rwbits_set:
  "bus_log (rwbits_set n addr lo bus v) =
     bus_log bus @ [TxWriteRead [of_nat addr] 1,
        TxWrite [of_nat addr, (regs bus (unat (of_nat addr :: byte)) AND NOT (bit_mask n lo))
                                OR push_bit lo (word_of_int v)]]"
  by (simp add: rwbits_set_def write_then_readinto_def i2c_write_def Let_def)

lemma rwbits_get_eq:
  "rwbits_get n addr lo bus =
     (bus\<lparr>bus_log := bus_log bus @ [TxWriteRead [of_nat addr] 1]\<rparr>,
      uint (drop_bit lo (regs bus (unat (of_nat addr :: byte)) AND bit_mask n lo)))"
  by (simp add: rwbits_get_def write_then_readinto_def Let_def)

lemma unary_get_eq:
  "unary_get addr bus =
     (bus\<lparr>bus_log := bus_log bus @ [TxWriteRead [of_nat addr] 1]\<rparr>,
      regs bus (unat (of_nat addr :: byte)))"
  by (simp add: unary_get_def write_then_readinto_def Let_def)

text \<open>Reading a field back after writing a value that fits it.\<close>

lemma field_word:
  fixes r w :: byte
  assumes "lo + n \<le> 8"
  shows "drop_bit lo (((r AND NOT (bit_mask n lo)) OR push_bit lo w) AND bit_mask n lo)
           = take_bit n w"
proof (rule bit_word_eqI)
  fix k assume "k < LENGTH(8)"
  with assms
  show "bit (drop_bit lo (((r AND NOT (bit_mask n lo)) OR push_bit lo w) AND bit_mask n lo)) k
          = bit (take_bit n w) k"
    by (auto simp add: bit_mask_def bit_simps)
qed

lemma field_roundtrip:
  fixes r :: byte
  assumes "0 \<le> v" "v < 2 ^ n" "lo + n \<le> 8"
  shows "uint (drop_bit lo (((r AND NOT (bit_mask n lo)) OR push_bit lo (word_of_int v))
           AND bit_mask n lo)) = v"
proof -
  have n8: "n \<le> 8" using assms by simp
  have "uint (take_bit n (word_of_int v :: byte)) = take_bit n (take_bit 8 v)"
    by (simp add: unsigned_take_bit_eq uint_word_of_int_eq)
  also have "\<dots> = take_bit n v" using n8 by (simp add: min_def)
  also have "\<dots> = v" using assms by (simp add: take_bit_int_eq_self)
  finally show ?thesis unfolding field_word [OF assms(3)] .
qed

lemma rwbits_round_trip:
  assumes "0 \<le> v" "v < 2 ^ n" "lo + n \<le> 8"
  shows "snd (rwbits_get n addr lo (rwbits_set n addr lo bus v)) = v"
proof -
  have "snd (rwbits_get n addr lo (rwbits_set n addr lo bus v)) =
      uint (drop_bit lo (((regs bus (unat (of_nat addr :: byte)) AND NOT (bit_mask n lo))
         OR push_bit lo (word_of_int v)) AND bit_mask n lo))"
    by (simp only: rwbits_get_eq regs_rwbits_set snd_conv simp_thms if_True)
  also have "\<dots> = v" using assms by (rule field_roundtrip)
  finally show ?thesis .
qed

text \<open>Reading a field back after writing any integer: the low bits of the integer.\<close>

lemma rwbits_get_after_set:
  assumes "lo + n \<le> 8"
  shows "snd (rwbits_get n addr lo (rwbits_set n addr lo bus v))
           = uint (take_bit n (word_of_int v :: byte))"
proof -
  have "snd (rwbits_get n addr lo (rwbits_set n addr lo bus v)) =
      uint (drop_bit lo (((regs bus (unat (of_nat addr :: byte)) AND NOT (bit_mask n lo))
         OR push_bit lo (word_of_int v)) AND bit_mask n lo))"
    by (simp only: rwbits_get_eq regs_rwbits_set snd_conv simp_thms if_True)
  then show ?thesis unfolding field_word [OF assms] .
qed

lemma field_after_rwbits_set:
  assumes "lo + n \<le> 8" "addr < 256"
  shows "field (rwbits_set n addr lo bus v) addr n lo = uint (take_bit n (word_of_int v :: byte))"
proof -
  have a: "unat (of_nat addr :: byte) = addr"
    using assms(2) by (simp add: unat_of_nat)
  have "field (rwbits_set n addr lo bus v) addr n lo =
      uint (drop_bit lo (((regs bus addr AND NOT (bit_mask n lo))
         OR push_bit lo (word_of_int v)) AND bit_mask n lo))"
    by (simp only: field_def regs_rwbits_set a simp_thms if_True)
  then show ?thesis unfolding field_word [OF assms(1)] .
qed

lemma take_bit_code:
  "uint (take_bit n (word_of_int v :: byte)) = take_bit (min n 8) v"
  by (simp add: unsigned_take_bit_eq uint_word_of_int_eq min.commute)

text \<open>Two bytes combined big-endian.\<close>

lemma be16: "push_bit 8 (uint (a::byte)) OR uint (b::byte) = 256 * uint a + uint b"
proof -
  have "256 * uint a + uint b = push_bit 8 (uint a) + uint b"
    by (simp add: push_bit_eq_mult)
  also have "\<dots> = push_bit 8 (uint a) OR uint b"
    by (rule disjunctive_add_eq_or, rule bit_eqI) (auto simp add: bit_simps dest: bit_imp_le_length)
  finally show ?thesis by simp
qed

section \<open>Properties of iam20380.py\<close>

text \<open>
  None of the three displays is accepted as written; with the comma put in, or with the
  string taken out, each is, and evaluates to the table of the globals so named.
\<close>

lemma displays_rejected:
  "list_display IAM20380_sens_display = Inl SyntaxError"
  "list_display IAM20380_fs_display = Inl SyntaxError"
  "list_display IAM20380_avgs_display = Inl SyntaxError"
  by (simp_all add: IAM20380_sens_display_def IAM20380_fs_display_def IAM20380_avgs_display_def)

lemma tables_comma:
  "IAM20380_sens globals_comma = [PStr sens_doc, PInt 131, PFloat 65.5, PFloat 32.8, PFloat 16.4]"
  "IAM20380_fs globals_comma = [PStr fs_doc, PInt 250, PInt 500, PInt 1000, PInt 2000]"
  "IAM20380_avgs globals_comma =
     [PStr avgs_doc, PInt 1, PInt 2, PInt 4, PInt 8, PInt 16, PInt 32, PInt 64, PInt 128]"
  by (simp_all add: globals_comma_def comma_added_def IAM20380_sens_display_def
        IAM20380_fs_display_def IAM20380_avgs_display_def)

lemma tables_numbers:
  "IAM20380_sens globals_numbers = [PInt 131, PFloat 65.5, PFloat 32.8, PFloat 16.4]"
  "IAM20380_fs globals_numbers = [PInt 250, PInt 500, PInt 1000, PInt 2000]"
  "IAM20380_avgs globals_numbers =
     [PInt 1, PInt 2, PInt 4, PInt 8, PInt 16, PInt 32, PInt 64, PInt 128]"
  by (simp_all add: globals_numbers_def string_dropped_def IAM20380_sens_display_def
        IAM20380_fs_display_def IAM20380_avgs_display_def)

lemma comma_added_accepted:
  "list_display (map (\<lambda>(v, c). (v, Comma)) IAM20380_sens_display)
     = Inr (IAM20380_sens globals_comma)"
  "list_display (map (\<lambda>(v, c). (v, Comma)) IAM20380_fs_display)
     = Inr (IAM20380_fs globals_comma)"
  "list_display (map (\<lambda>(v, c). (v, Comma)) IAM20380_avgs_display)
     = Inr (IAM20380_avgs globals_comma)"
  by (simp_all add: tables_comma)
     (simp_all add: IAM20380_sens_display_def IAM20380_fs_display_def IAM20380_avgs_display_def)

lemma string_dropped_accepted:
  "list_display (tl IAM20380_sens_display) = Inr (IAM20380_sens globals_numbers)"
  "list_display (tl IAM20380_fs_display) = Inr (IAM20380_fs globals_numbers)"
  "list_display (tl IAM20380_avgs_display) = Inr (IAM20380_avgs globals_numbers)"
  by (simp_all add: tables_numbers)
     (simp_all add: IAM20380_sens_display_def IAM20380_fs_display_def IAM20380_avgs_display_def)

lemma smplrt_div_set_valid: "0 \<le> v \<Longrightarrow> v \<le> 255 \<Longrightarrow> smplrt_div_set h v = Inl ValueError"
  by (simp add: smplrt_div_set_def)

lemma py_index_error: "py_index xs v = Inl e \<Longrightarrow> e = ValueError"
  by (induction xs arbitrary: e) (auto split: if_splits sum.splits)

lemma fs_set_cases: "fs_set g h v = Inl ValueError \<or> (\<exists>h'. fs_set g h v = Inr h')"
  by (auto simp add: fs_set_def split: sum.splits dest: py_index_error)

lemma dlpf_set_6: "\<exists>h'. dlpf_set h 6 = Inr h'"
  by (simp add: dlpf_set_def)

text \<open>
  \<^verbatim>\<open>reset\<close> raises ValueError whatever the tables hold: should \<^verbatim>\<open>fs = 250\<close> be refused, the
  error is that of its setter; otherwise \<^verbatim>\<open>dlpf = 6\<close> passes and \<^verbatim>\<open>smplrt_div = 255\<close>
  raises.
\<close>

lemma reset_raises: "reset g h = Inl ValueError"
proof -
  define h3 where "h3 = h\<lparr>i2c_device :=
      fchoice_b_set (pwr_mgmt_1_set (reset_bit_set (i2c_device h) True) 0x01) 0x00\<rparr>"
  consider "fs_set g h3 250 = Inl ValueError" | h4 where "fs_set g h3 250 = Inr h4"
    using fs_set_cases by blast
  then show ?thesis
  proof cases
    case 1
    then show ?thesis by (simp add: reset_def h3_def Let_def)
  next
    case 2
    obtain h5 where h5: "dlpf_set h4 6 = Inr h5" using dlpf_set_6 by blast
    have "smplrt_div_set h5 255 = Inl ValueError" by (rule smplrt_div_set_valid) simp_all
    with 2 h5 show ?thesis by (simp add: reset_def h3_def Let_def)
  qed
qed

lemma fs_set_250_passes:
  "\<exists>h'. fs_set globals_comma h 250 = Inr h'"
  "\<exists>h'. fs_set globals_numbers h 250 = Inr h'"
  by (simp_all add: fs_set_def tables_comma tables_numbers)

lemma chip_id_eq:
  "chip_id bus = (bus\<lparr>bus_log := bus_log bus @ [TxWriteRead [0x75] 1]\<rparr>, regs bus 0x75)"
  by (simp add: chip_id_def unary_get_eq reg_defs)

lemma uint_B5: "uint (w :: byte) = 0xB5 \<longleftrightarrow> w = 0xB5"
proof
  assume "uint w = 0xB5"
  then have "word_of_int (uint w) = (word_of_int 0xB5 :: byte)" by simp
  then show "w = 0xB5" by simp
next
  assume "w = 0xB5" then show "uint w = 0xB5" by simp
qed

lemma init_eq:
  "init g bus = (if regs bus 0x75 = 0xB5 then Inl ValueError else Inl RuntimeError)"
  by (simp add: init_def chip_id_eq IAM20380_WHO_AM_I_def reset_raises uint_B5)

lemma sl_init_raises: "sl_init bus addr = Inl TypeError"
  by (simp add: sl_init_def WHO_AM_I_def bad_chip_id_message_def Let_def split: prod.splits)

text \<open>
  C9. In \<^verbatim>\<open>iam20380.py\<close>, \<^verbatim>\<open>reset\<close> always raises ValueError: it assigns
  \<^verbatim>\<open>smplrt_div = 255\<close>, and the setter of \<^verbatim>\<open>smplrt_div\<close> raises for every value from 0 to
  255. \<^verbatim>\<open>__init__\<close> calls \<^verbatim>\<open>reset\<close> after the chip-identity check, so it never returns an
  instance: a wrong identity raises RuntimeError, the right one ValueError. This holds for
  every content \<open>g\<close> of the tables.
\<close>

theorem C9_reset_always_raises:
  "reset g h = Inl ValueError
   \<and> (\<forall>v. 0 \<le> v \<and> v \<le> 255 \<longrightarrow> smplrt_div_set h v = Inl ValueError)
   \<and> init g bus = (if regs bus 0x75 = 0xB5 then Inl ValueError else Inl RuntimeError)
   \<and> (\<forall>h'. init g bus \<noteq> Inr h')"
  by (simp add: reset_raises smplrt_div_set_valid init_eq)

theorem C9_reset_always_raises_witness:
  "reset globals_numbers (new_handle (sim_bus 0xB5)) = Inl ValueError
   \<and> reset globals_comma (new_handle (sim_bus 0xB5)) = Inl ValueError
   \<and> (0 \<le> (255::int) \<and> (255::int) \<le> 255)
   \<and> smplrt_div_set (new_handle (sim_bus 0xB5)) 255 = Inl ValueError
   \<and> init globals_numbers (sim_bus 0xB5) = Inl ValueError
   \<and> init globals_comma (sim_bus 0xB5) = Inl ValueError"
  using C9_reset_always_raises [of globals_numbers "new_handle (sim_bus 0xB5)" "sim_bus 0xB5"]
        C9_reset_always_raises [of globals_comma "new_handle (sim_bus 0xB5)" "sim_bus 0xB5"]
  by (simp add: sim_bus_def)

text \<open>
  C1 at the accepted identity bytes. With chip identity 0xB5, \<^verbatim>\<open>__init__\<close> of
  \<^verbatim>\<open>iam20380.py\<close> ends in the ValueError of \<^verbatim>\<open>reset\<close>; with 0xFD it raises RuntimeError,
  as it does with 0x00; this for every content \<open>g\<close> of the tables. \<^verbatim>\<open>__init__\<close> of
  \<^verbatim>\<open>sierralobo_iam20380.py\<close> raises for both bytes. No variant yields an instance for an
  accepted identity.
\<close>

theorem C1_construction_at_accepted_ids:
  "init g (sim_bus 0xB5) = Inl ValueError
   \<and> init g (sim_bus 0xFD) = Inl RuntimeError
   \<and> init g (sim_bus 0x00) = Inl RuntimeError
   \<and> sl_init (sim_bus 0xB5) 0x68 = Inl TypeError
   \<and> sl_init (sim_bus 0xFD) 0x68 = Inl TypeError"
  by (simp add: init_eq sl_init_raises sim_bus_def)

text \<open>
  C10 at every chip identity. In \<^verbatim>\<open>sierralobo_iam20380.py\<close> the integer read from the
  Who-Am-I register never equals the tuple \<^verbatim>\<open>_WHO_AM_I\<close>, so \<^verbatim>\<open>__init__\<close> reaches its
  \<^verbatim>\<open>raise RuntimeError(...)\<close> for every device and every address, 0xB5 and 0xFD included.
  The message of that statement formats the tuple with \<^verbatim>\<open>#x\<close>, which raises TypeError
  while the argument is built: the exception that leaves \<^verbatim>\<open>__init__\<close> is TypeError, and
  the RuntimeError the statement names is never made.
\<close>

theorem C10_construction_always_fails:
  "sl_init bus addr = Inl TypeError
   \<and> sl_init bus addr \<noteq> Inl RuntimeError
   \<and> PInt (uint (snd (chip_id bus))) \<noteq> WHO_AM_I
   \<and> bad_chip_id_message addr (PInt (uint (snd (chip_id bus)))) WHO_AM_I = Inl TypeError"
  by (simp add: sl_init_raises) (simp add: WHO_AM_I_def bad_chip_id_message_def)

text \<open>
  C5 at valid and invalid dividers. The setter of \<^verbatim>\<open>smplrt_div\<close> raises ValueError for
  0 and for 255, and for 256 and -1 it returns without an exception and without touching
  the bus: no value is ever written to the divider register.
\<close>

theorem C5_smplrt_div_setter_evaluated:
  "smplrt_div_set h 0 = Inl ValueError
   \<and> smplrt_div_set h 255 = Inl ValueError
   \<and> smplrt_div_set h 256 = Inr h
   \<and> smplrt_div_set h (-1) = Inr h"
  by (simp add: smplrt_div_set_def)

text \<open>The full-scale field read back after the setter wrote an index.\<close>

lemma fs_after_set:
  "value_of (fs g (h\<lparr>i2c_device := fs_sel_set (i2c_device h) i\<rparr>))
     = py_getitem (IAM20380_fs g) (take_bit 2 i)"
proof -
  have "snd (fs_sel (fs_sel_set (i2c_device h) i)) = uint (take_bit 2 (word_of_int i :: byte))"
    unfolding fs_sel_def fs_sel_set_def by (rule rwbits_get_after_set) simp
  then have "snd (fs_sel (fs_sel_set (i2c_device h) i)) = take_bit 2 i"
    by (simp add: take_bit_code)
  then show ?thesis
    by (cases "fs_sel (fs_sel_set (i2c_device h) i)")
       (simp add: fs_def value_of_def split: sum.splits)
qed

lemma field_after_fs_sel_set:
  "field (fs_sel_set bus i) GYRO_CONFIG_REG 2 3 = take_bit 2 i"
  unfolding fs_sel_set_def
  by (subst field_after_rwbits_set) (simp_all add: reg_defs take_bit_code)

text \<open>
  With the string left out of the table, the setter and the getter of \<^verbatim>\<open>fs\<close> do what the
  message of the setter says (``Full scale must be 250, 500, 1000, or 2000 dps''): a round
  trip for those four values, ValueError for any other.
\<close>

lemma fs_round_trip_numbers:
  assumes "v \<in> {250, 500, 1000, 2000}"
  shows "and_then (fs_set globals_numbers h v) (\<lambda>h1. value_of (fs globals_numbers h1))
           = Inr (PInt v)"
proof -
  from assms consider "v = 250" | "v = 500" | "v = 1000" | "v = 2000" by auto
  then show ?thesis
    by cases (simp_all add: and_then_def fs_set_def tables_numbers fs_after_set py_getitem_def)
qed

lemma fs_set_invalid_numbers:
  "v \<notin> {250, 500, 1000, 2000} \<Longrightarrow> fs_set globals_numbers h v = Inl ValueError"
  by (simp add: fs_set_def tables_numbers)

text \<open>
  With the comma put in, 2000 sits at index 4, which does not fit the two-bit field: the
  field is left at 0 and the getter returns element 0, the string.
\<close>

lemma fs_2000_comma:
  "and_then (fs_set globals_comma h 2000) (\<lambda>h1. value_of (fs globals_comma h1))
     = Inr (PStr fs_doc)"
  "and_then (fs_set globals_comma h 2000)
     (\<lambda>h1. Inr (field (i2c_device h1) GYRO_CONFIG_REG 2 3)) = Inr 0"
  by (simp_all add: and_then_def fs_set_def tables_comma fs_after_set py_getitem_def
        field_after_fs_sel_set)

text \<open>
  C3 at \<open>v = 2000\<close>. The table \<^verbatim>\<open>_IAM20380_fs\<close> is rejected as written (a string directly
  followed by a number), so the file is not compiled and neither the setter nor the getter
  of \<^verbatim>\<open>fs\<close> can be called. With the comma put in, \<^verbatim>\<open>fs = 2000\<close> followed by reading
  \<^verbatim>\<open>fs\<close> returns the string at the head of the table, not 2000, for every instance and
  every register content, and leaves the FS\_SEL field at 0. Only with the string left out
  does reading \<^verbatim>\<open>fs\<close> return 2000.
\<close>

theorem C3_fs_table_evaluated:
  "list_display IAM20380_fs_display = Inl SyntaxError
   \<and> and_then (fs_set globals_comma h 2000) (\<lambda>h1. value_of (fs globals_comma h1))
       = Inr (PStr fs_doc)
   \<and> and_then (fs_set globals_comma h 2000)
         (\<lambda>h1. Inr (field (i2c_device h1) GYRO_CONFIG_REG 2 3)) = Inr 0
   \<and> and_then (fs_set globals_numbers h 2000) (\<lambda>h1. value_of (fs globals_numbers h1))
       = Inr (PInt 2000)"
  by (simp add: displays_rejected fs_2000_comma fs_round_trip_numbers)

text \<open>The averaging field read back after the setter wrote an index.\<close>

lemma avgs_after_set:
  "value_of (avgs g (h\<lparr>i2c_device := gavg_cfg_set (i2c_device h) i\<rparr>))
     = py_getitem (IAM20380_avgs g) (take_bit 3 i)"
proof -
  have "snd (gavg_cfg (gavg_cfg_set (i2c_device h) i)) = uint (take_bit 3 (word_of_int i :: byte))"
    unfolding gavg_cfg_def gavg_cfg_set_def by (rule rwbits_get_after_set) simp
  then have "snd (gavg_cfg (gavg_cfg_set (i2c_device h) i)) = take_bit 3 i"
    by (simp add: take_bit_code)
  then show ?thesis
    by (cases "gavg_cfg (gavg_cfg_set (i2c_device h) i)")
       (simp add: avgs_def value_of_def split: sum.splits)
qed

lemma field_after_gavg_cfg_set_any:
  "field (gavg_cfg_set bus i) LP_MODE_CFG_REG 3 4 = take_bit 3 i"
  unfolding gavg_cfg_set_def
  by (subst field_after_rwbits_set) (simp_all add: reg_defs take_bit_code)

lemma field_after_gavg_cfg_set:
  assumes "0 \<le> i" "i < 8"
  shows "field (gavg_cfg_set bus i) LP_MODE_CFG_REG 3 4 = i"
  using assms by (simp add: field_after_gavg_cfg_set_any take_bit_int_eq_self)

text \<open>
  With the string left out of the table, the setter and the getter of \<^verbatim>\<open>avgs\<close> do what
  the message of the setter says (``Averages must be 1, 2, 4, 8, 16, 32, 64, or 128''): a
  round trip for those eight values with the code \<open>k\<close> written for \<open>2 ^ k\<close>, ValueError for
  any other.
\<close>

lemma avgs_round_trip_numbers:
  assumes "k \<le> 7"
  shows "and_then (avgs_set globals_numbers h (2 ^ k)) (\<lambda>h1. value_of (avgs globals_numbers h1))
           = Inr (PInt (2 ^ k))"
    and "and_then (avgs_set globals_numbers h (2 ^ k))
           (\<lambda>h1. Inr (field (i2c_device h1) LP_MODE_CFG_REG 3 4)) = Inr (int k)"
proof -
  from assms
  consider "k = 0" | "k = 1" | "k = 2" | "k = 3" | "k = 4" | "k = 5" | "k = 6" | "k = 7"
    by arith
  then show "and_then (avgs_set globals_numbers h (2 ^ k))
      (\<lambda>h1. value_of (avgs globals_numbers h1)) = Inr (PInt (2 ^ k))"
    by cases (simp_all add: and_then_def avgs_set_def tables_numbers avgs_after_set py_getitem_def)
  from assms
  consider "k = 0" | "k = 1" | "k = 2" | "k = 3" | "k = 4" | "k = 5" | "k = 6" | "k = 7"
    by arith
  then show "and_then (avgs_set globals_numbers h (2 ^ k))
      (\<lambda>h1. Inr (field (i2c_device h1) LP_MODE_CFG_REG 3 4)) = Inr (int k)"
    by cases (simp_all add: and_then_def avgs_set_def tables_numbers field_after_gavg_cfg_set_any)
qed

lemma avgs_set_invalid_numbers:
  "v \<notin> {1, 2, 4, 8, 16, 32, 64, 128} \<Longrightarrow> avgs_set globals_numbers h v = Inl ValueError"
  by (simp add: avgs_set_def tables_numbers)

text \<open>
  With the comma put in, \<open>2 ^ k\<close> sits at index \<open>k + 1\<close>. For 128 that is 8, which does not
  fit the three-bit field: shifted to bit 4 it is 0x80, so the write sets bit 7 of the
  register, the gyro-cycle-mode bit, and leaves the field at 0; the getter then returns
  element 0, the string. For 1 the code written is 1.
\<close>

lemma bit7_after_code_8:
  "bit (regs (gavg_cfg_set bus 8) LP_MODE_CFG_REG) 7"
  by (simp add: gavg_cfg_set_def regs_rwbits_set reg_defs bit_simps)

lemma avgs_128_comma:
  "and_then (avgs_set globals_comma h 128) (\<lambda>h1. value_of (avgs globals_comma h1))
     = Inr (PStr avgs_doc)"
  "and_then (avgs_set globals_comma h 128)
     (\<lambda>h1. Inr (field (i2c_device h1) LP_MODE_CFG_REG 3 4)) = Inr 0"
  "and_then (avgs_set globals_comma h 128)
     (\<lambda>h1. Inr (bit (regs (i2c_device h1) LP_MODE_CFG_REG) 7)) = Inr True"
  "and_then (avgs_set globals_comma h 1)
     (\<lambda>h1. Inr (field (i2c_device h1) LP_MODE_CFG_REG 3 4)) = Inr 1"
  by (simp_all add: and_then_def avgs_set_def tables_comma avgs_after_set py_getitem_def
        field_after_gavg_cfg_set_any bit7_after_code_8)

text \<open>
  C4 at \<open>v = 128\<close> and \<open>v = 1\<close>. The table \<^verbatim>\<open>_IAM20380_avgs\<close> is rejected as written (a
  string directly followed by a number), so the file is not compiled and neither the setter
  nor the getter of \<^verbatim>\<open>avgs\<close> can be called. With the comma put in, \<^verbatim>\<open>avgs = 128\<close>
  followed by reading \<^verbatim>\<open>avgs\<close> returns the string at the head of the table, not 128; the
  field in bits 6:4 is left at 0, not 7, and bit 7 of the register is set; and \<^verbatim>\<open>avgs = 1\<close>
  writes the code 1, not 0. This for every instance and every register content. Only with
  the string left out does reading \<^verbatim>\<open>avgs\<close> return 128 with the code 7 written.
\<close>

theorem C4_avgs_table_evaluated:
  "list_display IAM20380_avgs_display = Inl SyntaxError
   \<and> and_then (avgs_set globals_comma h 128) (\<lambda>h1. value_of (avgs globals_comma h1))
       = Inr (PStr avgs_doc)
   \<and> and_then (avgs_set globals_comma h 128)
         (\<lambda>h1. Inr (field (i2c_device h1) LP_MODE_CFG_REG 3 4)) = Inr 0
   \<and> and_then (avgs_set globals_comma h 128)
         (\<lambda>h1. Inr (bit (regs (i2c_device h1) LP_MODE_CFG_REG) 7)) = Inr True
   \<and> and_then (avgs_set globals_comma h 1)
         (\<lambda>h1. Inr (field (i2c_device h1) LP_MODE_CFG_REG 3 4)) = Inr 1
   \<and> and_then (avgs_set globals_numbers h 128) (\<lambda>h1. value_of (avgs globals_numbers h1))
       = Inr (PInt 128)
   \<and> and_then (avgs_set globals_numbers h 128)
         (\<lambda>h1. Inr (field (i2c_device h1) LP_MODE_CFG_REG 3 4)) = Inr 7"
  using avgs_round_trip_numbers [of 7 h] by (simp add: displays_rejected avgs_128_comma)

lemma bit7_kept:
  fixes r :: byte
  assumes "0 \<le> c" "c \<le> 7"
  shows "bit ((r AND NOT (bit_mask 3 4)) OR push_bit 4 (word_of_int c)) 7 = bit r 7"
proof -
  from assms
  consider "c = 0" | "c = 1" | "c = 2" | "c = 3" | "c = 4" | "c = 5" | "c = 6" | "c = 7"
    by arith
  then show ?thesis by cases (auto simp add: bit_mask_def bit_simps)
qed

lemma rwbit_get_eq:
  "rwbit_get addr b bus =
     (bus\<lparr>bus_log := bus_log bus @ [TxWriteRead [of_nat addr] 1]\<rparr>,
      bit (regs bus (unat (of_nat addr :: byte))) b)"
  by (simp add: rwbit_get_def write_then_readinto_def Let_def bit_iff_and_push_bit_not_eq_0)

text \<open>
  C8. For every prior content of the Low-Power-Mode-Config register (0x1E) and every
  averaging code from 0 to 7, writing the averaging field is a read of the register followed
  by a write of the modified byte, and bit 7 of the register, the gyro-cycle-mode bit that
  \<^verbatim>\<open>_gyro_cycle\<close> reads, is what it was before; the field then holds the code.
\<close>

theorem C8_gavg_cfg_write_keeps_gyro_cycle:
  "0 \<le> c \<Longrightarrow> c \<le> 7 \<Longrightarrow>
     bit (regs (gavg_cfg_set bus c) LP_MODE_CFG_REG) 7 = bit (regs bus LP_MODE_CFG_REG) 7
   \<and> snd (sl_gyro_cycle (gavg_cfg_set bus c)) = snd (sl_gyro_cycle bus)
   \<and> field (gavg_cfg_set bus c) LP_MODE_CFG_REG 3 4 = c
   \<and> bus_log (gavg_cfg_set bus c) =
       bus_log bus @ [TxWriteRead [0x1E] 1,
                      TxWrite [0x1E, (regs bus 0x1E AND NOT (bit_mask 3 4))
                                       OR push_bit 4 (word_of_int c)]]"
  by (simp add: field_after_gavg_cfg_set)
     (simp add: gavg_cfg_set_def sl_gyro_cycle_def rwbit_get_eq regs_rwbits_set log_rwbits_set
        reg_defs bit7_kept)

theorem C8_gavg_cfg_write_keeps_gyro_cycle_witness:
  "(0::int) \<le> 3 \<and> (3::int) \<le> 7
   \<and> bit (regs (gavg_cfg_set (sim_burst 0x1E [0x80]) 3) LP_MODE_CFG_REG) 7
   \<and> snd (sl_gyro_cycle (gavg_cfg_set (sim_burst 0x1E [0x80]) 3))
   \<and> field (gavg_cfg_set (sim_burst 0x1E [0x80]) 3) LP_MODE_CFG_REG 3 4 = 3"
  using C8_gavg_cfg_write_keeps_gyro_cycle [of 3 "sim_burst 0x1E [0x80]"]
  by (simp add: sim_burst_def sl_gyro_cycle_def rwbit_get_eq reg_defs)

lemma smplrt_div_reg_eq:
  "smplrt_div_reg bus =
     (bus\<lparr>bus_log := bus_log bus @ [TxWriteRead [0x19] 1]\<rparr>, regs bus 0x19)"
  by (simp add: smplrt_div_reg_def unary_get_eq reg_defs)

lemma odr_value:
  "value_of (odr h) =
     (if regs (i2c_device h) 0x19 = 0 then Inl ZeroDivisionError
      else Inr (1000 / real_of_int (uint (regs (i2c_device h) 0x19))))"
  by (simp add: odr_def smplrt_div_reg_eq value_of_def uint_0_iff)

text \<open>
  C6, as claimed: with a divider of 0, \<^verbatim>\<open>odr\<close> fails with an invalid-state error rather
  than a division fault. On a device whose divider register is 0 it raises
  ZeroDivisionError, the fault of the unguarded division.
\<close>

theorem C6_counterexample:
  "value_of (odr (new_handle (sim_bus 0xB5))) = Inl ZeroDivisionError"
  by (simp add: odr_value new_handle_def sim_bus_def)

text \<open>
  C6, amended. \<^verbatim>\<open>odr\<close> returns 1000 divided by the content of the sample-rate-divider
  register when that is not zero, and raises ZeroDivisionError when it is zero.
\<close>

theorem C6_odr:
  "value_of (odr h) =
     (if regs (i2c_device h) 0x19 = 0 then Inl ZeroDivisionError
      else Inr (1000 / real_of_int (uint (regs (i2c_device h) 0x19))))"
  by (rule odr_value)

lemma temperature_eq:
  assumes "length (buffer h) = 6"
  shows "temperature h =
     Inr (h\<lparr>i2c_device := (i2c_device h)\<lparr>bus_log := bus_log (i2c_device h) @ [TxWriteRead [0x41] 6]\<rparr>,
             buffer := map (\<lambda>i. regs (i2c_device h) (0x41 + i)) [0..<6]\<rparr>,
          real_of_int (256 * uint (regs (i2c_device h) 0x41) + uint (regs (i2c_device h) 0x42))
            / 326.8 + 25)"
proof -
  from assms obtain b rest where b: "buffer h = b # rest" and r: "length rest = 5"
    by (cases "buffer h") auto
  have nth0: "map (\<lambda>i. regs (i2c_device h) (65 + i)) [0..<6] ! 0 = regs (i2c_device h) 65"
    by (simp add: nth_map)
  have nth1: "map (\<lambda>i. regs (i2c_device h) (65 + i)) [0..<6] ! 1 = regs (i2c_device h) 66"
    by (simp add: nth_map)
  show ?thesis
    using nth0 nth1
    by (simp add: temperature_def b r write_then_readinto_def reg_defs Let_def be16
          del: upt_Suc upt_rec_numeral)
qed

lemma replicate_6: "replicate 6 (0::byte) = [0, 0, 0, 0, 0, 0]"
  by (simp add: numeral_eq_Suc)

text \<open>
  C7, as claimed: \<^verbatim>\<open>temperature\<close> performs one burst read of two bytes. On a fresh
  instance the one transaction of \<^verbatim>\<open>temperature\<close> reads six bytes from register 0x41 on:
  the read fills the whole shared buffer.
\<close>

theorem C7_counterexample:
  "transactions (temperature (new_handle (sim_burst 0x41 temp_burst))) = [TxWriteRead [0x41] 6]"
  by (simp add: temperature_eq new_handle_def transactions_def sim_burst_def)

text \<open>
  C7, amended. On an instance with its six-byte buffer, \<^verbatim>\<open>temperature\<close> performs one
  burst read, of six bytes, starting at the temperature-high register 0x41, combines the
  first two bytes big-endian into the unsigned 16-bit value \<open>raw\<close> and returns
  \<open>raw / 326.8 + 25\<close>.
\<close>

theorem C7_temperature:
  "length (buffer h) = 6 \<Longrightarrow>
     value_of (temperature h) =
       Inr (real_of_int (256 * uint (regs (i2c_device h) 0x41) + uint (regs (i2c_device h) 0x42))
              / 326.8 + 25)
   \<and> transactions (temperature h) = bus_log (i2c_device h) @ [TxWriteRead [0x41] 6]"
  by (simp add: temperature_eq value_of_def transactions_def)

theorem C7_temperature_witness:
  "length (buffer (new_handle (sim_burst 0x41 temp_burst))) = 6
   \<and> value_of (temperature (new_handle (sim_burst 0x41 temp_burst))) = Inr (4660 / 326.8 + 25)
   \<and> transactions (temperature (new_handle (sim_burst 0x41 temp_burst))) = [TxWriteRead [0x41] 6]"
  using C7_temperature [of "new_handle (sim_burst 0x41 temp_burst)"]
  by (simp add: new_handle_def sim_burst_def temp_burst_def)

section \<open>Properties of the two rotation readings\<close>

lemma regs_burst:
  "regs (sim_burst 0x43 gyro_burst) 0x43 = 0x00"
  "regs (sim_burst 0x43 gyro_burst) 0x44 = 0x64"
  "regs (sim_burst 0x43 gyro_burst) 0x45 = 0x80"
  "regs (sim_burst 0x43 gyro_burst) 0x46 = 0x00"
  "regs (sim_burst 0x43 gyro_burst) 0x47 = 0x7F"
  "regs (sim_burst 0x43 gyro_burst) 0x48 = 0xFF"
  "regs (sim_burst 0x43 gyro_burst) 0x1B = 0x00"
  by (simp_all add: sim_burst_def gyro_burst_def)

lemma burst_read:
  "write_then_readinto bus [0x43, b1, b2, b3, b4, b5] (Suc 0) 0 =
     (bus\<lparr>bus_log := bus_log bus @ [TxWriteRead [0x43] 6]\<rparr>,
      [regs bus 0x43, regs bus 0x44, regs bus 0x45, regs bus 0x46, regs bus 0x47, regs bus 0x48])"
  by (simp add: write_then_readinto_def Let_def upt_rec)

lemma sl_rotation_burst:
  "value_of (sl_rotation (sl_buffered_handle (sim_burst 0x43 gyro_burst)))
     = Inr (100 / 313, - 32767 / 313, 32767 / 313)"
  by (simp add: sl_rotation_def sl_raw_def sl_buffered_handle_def sl_new_handle_def value_of_def
        reg_defs replicate_6 burst_read regs_burst be16 sl_signed16_def sl_sensitivity_def
        sl_const_defs)

lemma fs_sel_eq:
  "fs_sel bus = (bus\<lparr>bus_log := bus_log bus @ [TxWriteRead [0x1B] 1]\<rparr>,
                 uint (drop_bit 3 (regs bus 0x1B AND bit_mask 2 3)))"
  by (simp add: fs_sel_def rwbits_get_eq reg_defs)

lemma sens_burst:
  "regs (i2c_device h) 0x1B = 0 \<Longrightarrow>
   sens globals_numbers h =
     Inr (h\<lparr>i2c_device := (i2c_device h)\<lparr>bus_log := bus_log (i2c_device h)
                      @ [TxWriteRead [0x1B] 1]\<rparr>\<rparr>, PInt 131)"
  "regs (i2c_device h) 0x1B = 0 \<Longrightarrow>
   sens globals_comma h =
     Inr (h\<lparr>i2c_device := (i2c_device h)\<lparr>bus_log := bus_log (i2c_device h)
                      @ [TxWriteRead [0x1B] 1]\<rparr>\<rparr>, PStr sens_doc)"
  by (simp_all add: sens_def fs_sel_eq py_getitem_def tables_numbers tables_comma)

lemma rotation_body_burst:
  "value_of (rotation_body globals_numbers (new_handle (sim_burst 0x43 gyro_burst)))
     = Inr (- 32668 / 131, 0, - 1 / 131)"
  by (simp add: rotation_body_def new_handle_def value_of_def reg_defs replicate_6 burst_read
        regs_burst be16 sens_burst)

lemma rotation_burst:
  "value_of (rotation globals_numbers (new_handle (sim_burst 0x43 gyro_burst))) = Inr PNone"
  by (simp add: rotation_def rotation_body_def new_handle_def value_of_def reg_defs replicate_6
        burst_read regs_burst be16 sens_burst)

lemma rotation_burst_comma:
  "rotation globals_comma (new_handle (sim_burst 0x43 gyro_burst)) = Inl TypeError"
  by (simp add: rotation_def rotation_body_def new_handle_def reg_defs replicate_6
        burst_read regs_burst be16 sens_burst)

text \<open>
  C2 at the burst bytes 00 64, 80 00, 7F FF (raw 100, 0x8000, 0x7FFF) with the range at
  250 dps. In \<^verbatim>\<open>sierralobo_iam20380.py\<close> the sign correction turns 0x8000 into -32767, the
  divisor for 250 dps is 313, and an instance as the class leaves it has no buffer to read
  into. In \<^verbatim>\<open>iam20380.py\<close>, with the string left out of the sensitivity table, the three
  quotients are those of the raw values minus 32768 by 131, so that raw 100 comes out
  negative, and the property returns None; with the comma put into the table, the divisor
  read for 250 dps is the string at its head and the division raises TypeError.
\<close>

theorem C2_rotation_evaluated:
  "sl_signed16 0x8000 = - 32767
   \<and> value_of (sl_rotation (sl_buffered_handle (sim_burst 0x43 gyro_burst)))
       = Inr (100 / 313, - 32767 / 313, 32767 / 313)
   \<and> sl_rotation (sl_new_handle (sim_burst 0x43 gyro_burst)) = Inl AttributeError
   \<and> value_of (rotation_body globals_numbers (new_handle (sim_burst 0x43 gyro_burst)))
       = Inr (- 32668 / 131, 0, - 1 / 131)
   \<and> value_of (rotation globals_numbers (new_handle (sim_burst 0x43 gyro_burst))) = Inr PNone
   \<and> rotation globals_comma (new_handle (sim_burst 0x43 gyro_burst)) = Inl TypeError"
  by (simp add: sl_rotation_burst rotation_body_burst rotation_burst rotation_burst_comma)
     (simp add: sl_signed16_def sl_rotation_def sl_raw_def sl_new_handle_def)

end
